theory Spec2Isabelle
  imports Main "HOL-Library.Word" "HOL-Library.Sublist" "HOL-Library.AList"
begin

unbundle bit_operations_syntax

section \<open>Strings, bytes and text files\<close>

text \<open>
  A Python \<^verbatim>\<open>bytes\<close> value is a \<^typ>\<open>string\<close> (a list of 8-bit characters). A Python
  \<^verbatim>\<open>str\<close> is represented by its UTF-8 encoding, so \<^verbatim>\<open>s.encode("utf-8")\<close> is the identity
  on the representation and \<^verbatim>\<open>b.decode(...)\<close> is a function from bytes to bytes that
  keeps exactly the well-formed sequences.

  \<open>utf8_scan\<close> reads one step of CPython's UTF-8 decoder at the head of the input: whether
  a well-formed sequence starts there, and how many bytes the sequence (or the error
  range reported to the error handler) spans.
\<close>

definition is_cont :: "char \<Rightarrow> bool" where
  "is_cont c = (0x80 \<le> (of_char c :: nat) \<and> (of_char c :: nat) < 0xC0)"

fun utf8_scan :: "string \<Rightarrow> bool \<times> nat" where
  "utf8_scan [] = (True, 0)"
| "utf8_scan (a # r) =
    (let ch = (of_char a :: nat) in
     if ch < 0x80 then (True, 1)
     else if ch < 0xC2 then (False, 1)
     else if ch < 0xE0 then
       (case r of [] \<Rightarrow> (False, 1)
        | b # _ \<Rightarrow> if is_cont b then (True, 2) else (False, 1))
     else if ch < 0xF0 then
       (case r of [] \<Rightarrow> (False, 1)
        | b # r2 \<Rightarrow>
           if \<not> is_cont b \<or> (if (of_char b :: nat) < 0xA0 then ch = 0xE0 else ch = 0xED)
           then (False, 1)
           else (case r2 of [] \<Rightarrow> (False, 2)
                 | c # _ \<Rightarrow> if is_cont c then (True, 3) else (False, 2)))
     else if ch < 0xF5 then
       (case r of [] \<Rightarrow> (False, 1)
        | b # r2 \<Rightarrow>
           if \<not> is_cont b \<or> (if (of_char b :: nat) < 0x90 then ch = 0xF0 else ch = 0xF4)
           then (False, 1)
           else (case r2 of [] \<Rightarrow> (False, 2)
                 | c # r3 \<Rightarrow>
                     if \<not> is_cont c then (False, 2)
                     else (case r3 of [] \<Rightarrow> (False, 3)
                           | d # _ \<Rightarrow> if is_cont d then (True, 4) else (False, 3))))
     else (False, 1))"


text \<open>
  \<^verbatim>\<open>b.decode(errors='ignore')\<close>: the bytes of every error range are dropped.
  \<open>utf8_valid\<close> is the strict decoder's success (\<^verbatim>\<open>UnicodeDecodeError\<close> otherwise).
\<close>

function decode_ignore :: "string \<Rightarrow> string" where
  "decode_ignore [] = []"
| "decode_ignore (a # r) =
     (case utf8_scan (a # r) of
        (ok, n) \<Rightarrow> (if ok then take n (a # r) else []) @ decode_ignore (drop (n - 1) r))"
  by pat_completeness auto
termination
  by (relation "measure length") auto

function utf8_valid :: "string \<Rightarrow> bool" where
  "utf8_valid [] = True"
| "utf8_valid (a # r) =
     (case utf8_scan (a # r) of (ok, n) \<Rightarrow> ok \<and> utf8_valid (drop (n - 1) r))"
  by pat_completeness auto
termination
  by (relation "measure length") auto

text \<open>
  Text-mode reading with \<^verbatim>\<open>newline=None\<close> (the default of \<^verbatim>\<open>Path.read_text\<close>):
  \<open>\r\n\<close> and a lone \<open>\r\<close> both become \<open>\n\<close>.
\<close>

fun universal_newlines :: "string \<Rightarrow> string" where
  "universal_newlines [] = []"
| "universal_newlines [c] = [if c = CHR 0x0D then CHR 0x0A else c]"
| "universal_newlines (c # d # r) =
     (if c = CHR 0x0D
      then CHR 0x0A # (if d = CHR 0x0A then universal_newlines r else universal_newlines (d # r))
      else c # universal_newlines (d # r))"

abbreviation NL :: string where "NL \<equiv> [CHR 0x0A]"
abbreviation DQ :: string where "DQ \<equiv> [CHR 0x22]"
abbreviation SQ :: string where "SQ \<equiv> [CHR 0x27]"

section \<open>Fingerprint engine\<close>

text \<open>
  \<^verbatim>\<open>hashlib.sha256\<close> (FIPS 180-4) on 32-bit words; \<open>hexdigest\<close> prints every digest byte as
  two lower-case hexadecimal digits.
\<close>

type_synonym w32 = "32 word"

definition sha_k :: "w32 list" where
  "sha_k =
   [0x428A2F98, 0x71374491, 0xB5C0FBCF, 0xE9B5DBA5,
    0x3956C25B, 0x59F111F1, 0x923F82A4, 0xAB1C5ED5,
    0xD807AA98, 0x12835B01, 0x243185BE, 0x550C7DC3,
    0x72BE5D74, 0x80DEB1FE, 0x9BDC06A7, 0xC19BF174,
    0xE49B69C1, 0xEFBE4786, 0x0FC19DC6, 0x240CA1CC,
    0x2DE92C6F, 0x4A7484AA, 0x5CB0A9DC, 0x76F988DA,
    0x983E5152, 0xA831C66D, 0xB00327C8, 0xBF597FC7,
    0xC6E00BF3, 0xD5A79147, 0x06CA6351, 0x14292967,
    0x27B70A85, 0x2E1B2138, 0x4D2C6DFC, 0x53380D13,
    0x650A7354, 0x766A0ABB, 0x81C2C92E, 0x92722C85,
    0xA2BFE8A1, 0xA81A664B, 0xC24B8B70, 0xC76C51A3,
    0xD192E819, 0xD6990624, 0xF40E3585, 0x106AA070,
    0x19A4C116, 0x1E376C08, 0x2748774C, 0x34B0BCB5,
    0x391C0CB3, 0x4ED8AA4A, 0x5B9CCA4F, 0x682E6FF3,
    0x748F82EE, 0x78A5636F, 0x84C87814, 0x8CC70208,
    0x90BEFFFA, 0xA4506CEB, 0xBEF9A3F7, 0xC67178F2]"

type_synonym sha_state = "w32 \<times> w32 \<times> w32 \<times> w32 \<times> w32 \<times> w32 \<times> w32 \<times> w32"

definition sha_init :: sha_state where
  "sha_init = (0x6A09E667, 0xBB67AE85, 0x3C6EF372, 0xA54FF53A,
               0x510E527F, 0x9B05688C, 0x1F83D9AB, 0x5BE0CD19)"

definition rotr :: "nat \<Rightarrow> w32 \<Rightarrow> w32" where
  "rotr n x = (drop_bit n x) OR (push_bit (32 - n) x)"

definition sha_round :: "sha_state \<Rightarrow> w32 \<times> w32 \<Rightarrow> sha_state" where
  "sha_round s kw =
     (case s of (a, b, c, d, e, f, g, h) \<Rightarrow>
        let t1 = h + (rotr 6 e XOR rotr 11 e XOR rotr 25 e) + ((e AND f) XOR (NOT e AND g))
                   + fst kw + snd kw;
            t2 = (rotr 2 a XOR rotr 13 a XOR rotr 22 a) + ((a AND b) XOR (a AND c) XOR (b AND c))
        in (t1 + t2, a, b, c, d + t1, e, f, g))"

fun sha_schedule :: "nat \<Rightarrow> w32 list \<Rightarrow> w32 list" where
  "sha_schedule 0 ws = ws"
| "sha_schedule (Suc n) ws =
     (let t = length ws;
          w15 = ws ! (t - 15); w2 = ws ! (t - 2);
          s0 = rotr 7 w15 XOR rotr 18 w15 XOR drop_bit 3 w15;
          s1 = rotr 17 w2 XOR rotr 19 w2 XOR drop_bit 10 w2
      in sha_schedule n (ws @ [ws ! (t - 16) + s0 + ws ! (t - 7) + s1]))"

definition sha_compress :: "sha_state \<Rightarrow> w32 list \<Rightarrow> sha_state" where
  "sha_compress s block =
     (case s of (a, b, c, d, e, f, g, h) \<Rightarrow>
      case foldl sha_round s (zip sha_k (sha_schedule 48 block)) of
        (a', b', c', d', e', f', g', h') \<Rightarrow>
          (a + a', b + b', c + c', d + d', e + e', f + f', g + g', h + h'))"

definition be_bytes :: "nat list \<Rightarrow> 'a::len word \<Rightarrow> string" where
  "be_bytes shifts w = map (\<lambda>i. char_of (unat (drop_bit i w))) shifts"

definition sha_pad :: "string \<Rightarrow> string" where
  "sha_pad m = m @ [CHR 0x80] @ replicate ((119 - length m mod 64) mod 64) (CHR 0x00)
                 @ be_bytes [56, 48, 40, 32, 24, 16, 8, 0] (word_of_nat (8 * length m) :: 64 word)"

fun be_words :: "string \<Rightarrow> w32 list" where
  "be_words (a # b # c # d # r) =
     (push_bit 24 (of_char a) OR push_bit 16 (of_char b) OR push_bit 8 (of_char c) OR of_char d)
       # be_words r"
| "be_words _ = []"

function sha_blocks :: "sha_state \<Rightarrow> string \<Rightarrow> sha_state" where
  "sha_blocks s m =
     (if length m < 64 then s
      else sha_blocks (sha_compress s (be_words (take 64 m))) (drop 64 m))"
  by pat_completeness auto
termination
  by (relation "measure (\<lambda>(s, m). length m)") auto

declare sha_blocks.simps [simp del]

definition sha256 :: "string \<Rightarrow> string" where
  "sha256 m =
     (case sha_blocks sha_init (sha_pad m) of (a, b, c, d, e, f, g, h) \<Rightarrow>
        concat (map (be_bytes [24, 16, 8, 0]) [a, b, c, d, e, f, g, h]))"

definition hexdigit :: "nat \<Rightarrow> char" where
  "hexdigit n = ''0123456789abcdef'' ! n"

definition hexdigest :: "string \<Rightarrow> string" where
  "hexdigest bs = concat (map (\<lambda>b. [hexdigit (of_char b div 16), hexdigit (of_char b mod 16)]) bs)"

text \<open>\<^verbatim>\<open>_hash_src(src)\<close> (lines 25-26): the first 12 characters of the hexadecimal digest.\<close>

definition hash_src :: "string \<Rightarrow> string" where
  "hash_src src = take 12 (hexdigest (sha256 src))"

section \<open>Artifact naming\<close>

text \<open>
  \<^verbatim>\<open>_platform_libname(basename)\<close> (lines 12-19). The value of \<^verbatim>\<open>sys.platform\<close> is the
  first argument. (A leading underscore is not an Isabelle identifier, so the private
  helpers lose it.)
\<close>

definition platform_libname :: "string \<Rightarrow> string \<Rightarrow> string" where
  "platform_libname platform basename =
     (if prefix ''linux'' platform then ''lib'' @ basename @ ''.so''
      else if platform = ''darwin'' then ''lib'' @ basename @ ''.dylib''
      else if platform = ''win32'' then basename @ ''.dll''
      else ''lib'' @ basename @ ''.so'')"

section \<open>The file system\<close>

text \<open>
  A path is its list of components below the root, a node is a regular file with its
  bytes or a directory, and a file system lists its nodes; the order of the list is the
  order in which the host enumerates directory entries. The root is always a directory.
  The lists meant are trees (the parent of every listed path is listed as a directory);
  symbolic links and \<open>..\<close> components are not modelled, so \<^verbatim>\<open>Path.resolve()\<close> is the
  identity on the absolute paths used here.
\<close>

type_synonym path = "string list"

datatype node = File string | Dir

type_synonym filesys = "(path \<times> node) list"

datatype error =
    RuntimeError string
  | TypeError string
  | OSError string
  | UnicodeDecodeError

text \<open>
  \<open>OSError k\<close> stands for the subclass of \<^verbatim>\<open>OSError\<close> named \<open>k\<close> (\<^verbatim>\<open>FileExistsError\<close>,
  \<^verbatim>\<open>FileNotFoundError\<close>, \<^verbatim>\<open>NotADirectoryError\<close>, \<^verbatim>\<open>IsADirectoryError\<close>), or for
  \<^verbatim>\<open>OSError\<close> itself.
\<close>

definition lookup :: "filesys \<Rightarrow> path \<Rightarrow> node option" where
  "lookup fs p = (if p = [] then Some Dir else map_of fs p)"

definition path_exists :: "filesys \<Rightarrow> path \<Rightarrow> bool" where
  "path_exists fs p = (lookup fs p \<noteq> None)"

definition is_dir :: "filesys \<Rightarrow> path \<Rightarrow> bool" where
  "is_dir fs p = (lookup fs p = Some Dir)"

definition is_file :: "filesys \<Rightarrow> path \<Rightarrow> bool" where
  "is_file fs p = (case lookup fs p of Some (File b) \<Rightarrow> True | _ \<Rightarrow> False)"

text \<open>
  Why a node cannot be created at \<open>p\<close>: its parent is a regular file or lies below one
  (\<^verbatim>\<open>ENOTDIR\<close>), or is missing (\<^verbatim>\<open>ENOENT\<close>).
\<close>

definition parent_error :: "filesys \<Rightarrow> path \<Rightarrow> error option" where
  "parent_error fs p =
     (case lookup fs (butlast p) of
        Some Dir \<Rightarrow> None
      | Some (File b) \<Rightarrow> Some (OSError ''NotADirectoryError'')
      | None \<Rightarrow>
          if list_ex (is_file fs) (prefixes (butlast p))
          then Some (OSError ''NotADirectoryError'')
          else Some (OSError ''FileNotFoundError''))"

text \<open>\<^verbatim>\<open>os.mkdir(p)\<close>.\<close>

definition os_mkdir :: "filesys \<Rightarrow> path \<Rightarrow> error + filesys" where
  "os_mkdir fs p =
     (if path_exists fs p then Inl (OSError ''FileExistsError'')
      else case parent_error fs p of
             Some e \<Rightarrow> Inl e
           | None \<Rightarrow> Inr (fs @ [(p, Dir)]))"

text \<open>
  \<^verbatim>\<open>Path.mkdir(exist_ok=True)\<close> and \<^verbatim>\<open>Path.mkdir(parents=True, exist_ok=True)\<close>, as pathlib
  writes them: try \<^verbatim>\<open>os.mkdir\<close>; on \<^verbatim>\<open>FileNotFoundError\<close> create the parent first (or
  re-raise without \<^verbatim>\<open>parents\<close>, or at the root); on another \<^verbatim>\<open>OSError\<close> re-raise unless
  the path is a directory already.
\<close>

definition mkdir_exist_ok :: "filesys \<Rightarrow> path \<Rightarrow> error + filesys" where
  "mkdir_exist_ok fs p =
     (case os_mkdir fs p of
        Inr fs' \<Rightarrow> Inr fs'
      | Inl e \<Rightarrow>
          if e = OSError ''FileNotFoundError'' then Inl e
          else if is_dir fs p then Inr fs else Inl e)"

function mkdir_parents :: "filesys \<Rightarrow> path \<Rightarrow> error + filesys" where
  "mkdir_parents fs p =
     (case os_mkdir fs p of
        Inr fs' \<Rightarrow> Inr fs'
      | Inl e \<Rightarrow>
          if e = OSError ''FileNotFoundError'' then
            (if p = [] then Inl e
             else case mkdir_parents fs (butlast p) of
                    Inl e' \<Rightarrow> Inl e'
                  | Inr fs' \<Rightarrow> mkdir_exist_ok fs' p)
          else if is_dir fs p then Inr fs else Inl e)"
  by pat_completeness auto
termination
  by (relation "measure (\<lambda>(fs, p). length p)") auto

declare mkdir_parents.simps [simp del]

text \<open>
  \<^verbatim>\<open>Path.write_text(s, encoding='utf-8')\<close> on a POSIX host (\<^verbatim>\<open>os.linesep\<close> is \<open>\n\<close>, so the
  text is stored as it is), and \<^verbatim>\<open>Path.read_text(encoding='utf-8')\<close> (strict decoding,
  universal newlines).
\<close>

definition write_text :: "filesys \<Rightarrow> path \<Rightarrow> string \<Rightarrow> error + filesys" where
  "write_text fs p s =
     (case lookup fs p of
        Some Dir \<Rightarrow> Inl (OSError ''IsADirectoryError'')
      | Some (File b) \<Rightarrow> Inr (AList.update p (File s) fs)
      | None \<Rightarrow>
          (case parent_error fs p of
             Some e \<Rightarrow> Inl e
           | None \<Rightarrow> Inr (AList.update p (File s) fs)))"

definition read_text :: "filesys \<Rightarrow> path \<Rightarrow> error + string" where
  "read_text fs p =
     (case lookup fs p of
        Some Dir \<Rightarrow> Inl (OSError ''IsADirectoryError'')
      | Some (File b) \<Rightarrow>
          if utf8_valid b then Inr (universal_newlines b) else Inl UnicodeDecodeError
      | None \<Rightarrow>
          (case parent_error fs p of
             Some e \<Rightarrow> Inl e
           | None \<Rightarrow> Inl (OSError ''FileNotFoundError'')))"

text \<open>
  \<^verbatim>\<open>list(d.rglob(pattern))\<close>: the nodes strictly below the directory \<open>d\<close> whose name
  matches, in enumeration order; nothing when \<open>d\<close> is not a directory. The matching of a
  name against the pattern (\<^verbatim>\<open>fnmatch\<close>) is a parameter; it is equality for a pattern
  without the metacharacters \<open>*\<close>, \<open>?\<close> and \<open>[\<close>.
\<close>

definition rglob :: "(string \<Rightarrow> string \<Rightarrow> bool) \<Rightarrow> filesys \<Rightarrow> path \<Rightarrow> string \<Rightarrow> path list" where
  "rglob match fs d pattern =
     (if is_dir fs d
      then filter (\<lambda>p. strict_prefix d p \<and> match pattern (last p)) (map fst fs)
      else [])"

text \<open>
  \<^verbatim>\<open>Path(p) / s\<close> for POSIX paths: \<open>s\<close> is split at \<open>/\<close>, empty and \<open>.\<close> components are
  dropped, and an absolute \<open>s\<close> replaces \<open>p\<close>. \<^verbatim>\<open>str(p)\<close> of an absolute path.
\<close>

fun split_on :: "char \<Rightarrow> string \<Rightarrow> string list" where
  "split_on sep [] = [[]]"
| "split_on sep (x # xs) =
     (if x = sep then [] # split_on sep xs
      else case split_on sep xs of
             [] \<Rightarrow> [[x]]
           | h # t \<Rightarrow> (x # h) # t)"

definition path_parts :: "string \<Rightarrow> path" where
  "path_parts s = filter (\<lambda>c. c \<noteq> [] \<and> c \<noteq> ''.'') (split_on (CHR ''/'') s)"

definition pjoin :: "path \<Rightarrow> string \<Rightarrow> path" where
  "pjoin p s = (if prefix ''/'' s then path_parts s else p @ path_parts s)"

definition path_str :: "path \<Rightarrow> string" where
  "path_str p = (if p = [] then ''/'' else concat (map (\<lambda>c. CHR ''/'' # c) p))"

section \<open>The host and the world\<close>

text \<open>
  What the program reads from its host and cannot change: \<^verbatim>\<open>sys.platform\<close>,
  \<^verbatim>\<open>shutil.which\<close>, \<^verbatim>\<open>tempfile.gettempdir()\<close>, the behaviour of a child process started
  by \<^verbatim>\<open>subprocess.run(cmd, cwd=..., stdout=PIPE, stderr=PIPE)\<close> (its outcome and what it
  leaves on disk), \<^verbatim>\<open>fnmatch\<close>, and the loader behind \<^verbatim>\<open>ctypes.CDLL\<close> (from the bytes of a
  library to its exported symbols, or a failure). A child process either cannot be started
  (\<^verbatim>\<open>subprocess.run\<close> raises the given error) or exits with a return code and the captured
  bytes of its standard output and standard error.
\<close>

datatype proc = SpawnError error | Exited int string string

record 'f os_env =
  sys_platform :: string
  which :: "string \<Rightarrow> string option"
  gettempdir :: path
  subprocess_run :: "string list \<Rightarrow> path \<Rightarrow> filesys \<Rightarrow> proc \<times> filesys"
  fnmatch :: "string \<Rightarrow> string \<Rightarrow> bool"
  cdll :: "string \<Rightarrow> (string \<Rightarrow> 'f option) option"

text \<open>
  What the program changes: the files on disk, and the child processes it has started
  (command and working directory), in order.
\<close>

record world =
  files :: filesys
  runs :: "(string list \<times> path) list"

type_synonym 'a io = "world \<Rightarrow> (error + 'a) \<times> world"

definition return_io :: "'a \<Rightarrow> 'a io" where
  "return_io x w = (Inr x, w)"

definition raise_io :: "error \<Rightarrow> 'a io" where
  "raise_io e w = (Inl e, w)"

definition bind_io :: "'a io \<Rightarrow> ('a \<Rightarrow> 'b io) \<Rightarrow> 'b io" where
  "bind_io m k w = (case m w of (Inl e, w') \<Rightarrow> (Inl e, w') | (Inr x, w') \<Rightarrow> k x w')"

definition lift_fs :: "(filesys \<Rightarrow> error + filesys) \<Rightarrow> unit io" where
  "lift_fs f w = (case f (files w) of Inl e \<Rightarrow> (Inl e, w) | Inr fs' \<Rightarrow> (Inr (), w\<lparr>files := fs'\<rparr>))"

definition read_fs :: "(filesys \<Rightarrow> error + 'a) \<Rightarrow> 'a io" where
  "read_fs f w = (case f (files w) of Inl e \<Rightarrow> (Inl e, w) | Inr x \<Rightarrow> (Inr x, w))"

section \<open>The program\<close>

text \<open>\<^verbatim>\<open>_ensure_cargo_exists()\<close> (lines 21-23).\<close>

definition ensure_cargo_exists :: "'f os_env \<Rightarrow> error + unit" where
  "ensure_cargo_exists os =
     (if which os ''cargo'' = None
      then Inl (RuntimeError ''cargo (Rust toolchain) not found in PATH. Please install Rust and cargo.'')
      else Inr ())"

text \<open>
  \<^verbatim>\<open>rust_jit(rust_src, fn_name, argtypes, restype, crate_name, cargo_extra_args)\<close>
  (lines 28-40 and 120) returns the closure \<^verbatim>\<open>decorator\<close>; the closure is the record of
  the variables it captures. Python's \<^verbatim>\<open>x or d\<close> is \<open>d\<close> when \<open>x\<close> is \<^verbatim>\<open>None\<close> or
  empty.
\<close>

record 't closure =
  rust_src :: string
  fn_name :: string
  argtypes :: "'t list"
  restype :: 't
  crate_name :: string
  cargo_extra_args :: "string list"

definition py_or :: "'a list option \<Rightarrow> 'a list \<Rightarrow> 'a list" where
  "py_or x d = (case x of None \<Rightarrow> d | Some v \<Rightarrow> if v = [] then d else v)"

definition rust_jit ::
  "'f os_env \<Rightarrow> string \<Rightarrow> string \<Rightarrow> 't list \<Rightarrow> 't \<Rightarrow> string option \<Rightarrow> string list option
     \<Rightarrow> error + 't closure" where
  "rust_jit os src fname atypes rtype cname extra =
     (let extra' = py_or extra [] in
      case ensure_cargo_exists os of
        Inl e \<Rightarrow> Inl e
      | Inr u \<Rightarrow>
          let src_hash = hash_src src;
              cname' = py_or cname (''rustjit_'' @ src_hash)
          in Inr \<lparr>rust_src = src, fn_name = fname, argtypes = atypes, restype = rtype,
                  crate_name = cname', cargo_extra_args = extra'\<rparr>)"

text \<open>The paths of a workspace (lines 43, 50, 51, 57-59 and 87-89).\<close>

definition tempdir_of :: "'f os_env \<Rightarrow> 't closure \<Rightarrow> path" where
  "tempdir_of os c = pjoin (gettempdir os) (''rustjit_'' @ crate_name c)"

definition src_file_of :: "'f os_env \<Rightarrow> 't closure \<Rightarrow> path" where
  "src_file_of os c = pjoin (pjoin (tempdir_of os c) ''src'') ''lib.rs''"

definition cargo_toml_of :: "'f os_env \<Rightarrow> 't closure \<Rightarrow> path" where
  "cargo_toml_of os c = pjoin (tempdir_of os c) ''Cargo.toml''"

definition target_dir_of :: "'f os_env \<Rightarrow> 't closure \<Rightarrow> path" where
  "target_dir_of os c = pjoin (pjoin (tempdir_of os c) ''target'') ''release''"

definition libname_of :: "'f os_env \<Rightarrow> 't closure \<Rightarrow> string" where
  "libname_of os c = platform_libname (sys_platform os) (crate_name c)"

definition candidate_of :: "'f os_env \<Rightarrow> 't closure \<Rightarrow> path" where
  "candidate_of os c = pjoin (target_dir_of os c) (libname_of os c)"

text \<open>The manifest written at lines 67-75.\<close>

definition manifest :: "string \<Rightarrow> string" where
  "manifest cname =
     ''[package]'' @ NL @
     ''name = '' @ DQ @ cname @ DQ @ NL @
     ''version = '' @ DQ @ ''0.1.0'' @ DQ @ NL @
     ''edition = '' @ DQ @ ''2021'' @ DQ @ NL @
     NL @
     ''[lib]'' @ NL @
     ''name = '' @ DQ @ cname @ DQ @ NL @
     ''crate-type = ['' @ DQ @ ''cdylib'' @ DQ @ '']'' @ NL"

text \<open>
  Lines 47-48: the workspace directory is created when nothing exists at its path.
\<close>

definition ensure_tempdir :: "'f os_env \<Rightarrow> 't closure \<Rightarrow> unit io" where
  "ensure_tempdir os c w =
     (if \<not> path_exists (files w) (tempdir_of os c)
      then lift_fs (\<lambda>fs. mkdir_parents fs (tempdir_of os c)) w
      else (Inr (), w))"

text \<open>
  Lines 44-45 and 53-62, the cache check. The pair \<^verbatim>\<open>(rebuild, lib_path)\<close> starts as
  \<^verbatim>\<open>(True, None)\<close> and becomes \<^verbatim>\<open>(False, str(candidate.resolve()))\<close> on a hit: the result
  \<open>None\<close> is \<^verbatim>\<open>rebuild = True\<close>, and \<open>Some p\<close> is \<^verbatim>\<open>rebuild = False\<close> with the library at
  \<open>p\<close>.
\<close>

definition cache_check :: "'f os_env \<Rightarrow> 't closure \<Rightarrow> filesys \<Rightarrow> error + path option" where
  "cache_check os c fs =
     (if path_exists fs (src_file_of os c) then
        (case read_text fs (src_file_of os c) of
           Inl e \<Rightarrow> Inl e
         | Inr existing \<Rightarrow>
             if existing = rust_src c then
               (if path_exists fs (candidate_of os c) then Inr (Some (candidate_of os c))
                else Inr None)
             else Inr None)
      else Inr None)"

text \<open>Lines 66-77: the source directory, the manifest and the source file.\<close>

definition write_workspace :: "'f os_env \<Rightarrow> 't closure \<Rightarrow> unit io" where
  "write_workspace os c =
     bind_io (lift_fs (\<lambda>fs. mkdir_exist_ok fs (pjoin (tempdir_of os c) ''src''))) (\<lambda>u.
     bind_io (lift_fs (\<lambda>fs. write_text fs (cargo_toml_of os c) (manifest (crate_name c)))) (\<lambda>u.
     lift_fs (\<lambda>fs. write_text fs (src_file_of os c) (rust_src c))))"

text \<open>
  Lines 79-85: the build. \<^verbatim>\<open>check=True\<close> raises \<^verbatim>\<open>CalledProcessError\<close> on a return code
  other than 0, which is caught and raised again as a \<^verbatim>\<open>RuntimeError\<close>; an error of
  starting the process is not caught.
\<close>

definition build_cmd :: "string list" where
  "build_cmd = [''cargo'', ''build'', ''--release'']"

definition decode_output :: "string \<Rightarrow> string" where
  "decode_output b = (if b \<noteq> [] then decode_ignore b else [])"

definition compile_error :: "string \<Rightarrow> string \<Rightarrow> error" where
  "compile_error out err =
     RuntimeError (''Rust compilation failed.'' @ NL @ ''STDOUT:'' @ NL @ decode_output out
                     @ NL @ ''STDERR:'' @ NL @ decode_output err)"

definition run_build :: "'f os_env \<Rightarrow> 't closure \<Rightarrow> unit io" where
  "run_build os c w =
     (case subprocess_run os build_cmd (tempdir_of os c) (files w) of
        (r, fs') \<Rightarrow>
          let w' = w\<lparr>files := fs', runs := runs w @ [(build_cmd, tempdir_of os c)]\<rparr> in
          case r of
            SpawnError e \<Rightarrow> (Inl e, w')
          | Exited rc out err \<Rightarrow>
              if rc \<noteq> 0 then (Inl (compile_error out err), w') else (Inr (), w'))"

text \<open>Lines 87-96: where the library is after a build.\<close>

definition not_found_error :: "'f os_env \<Rightarrow> 't closure \<Rightarrow> error" where
  "not_found_error os c =
     RuntimeError (''Cannot find the library: '' @ libname_of os c @ '' (searched under ''
                     @ path_str (target_dir_of os c) @ '')'')"

definition resolve_artifact :: "'f os_env \<Rightarrow> 't closure \<Rightarrow> filesys \<Rightarrow> error + path" where
  "resolve_artifact os c fs =
     (if \<not> path_exists fs (candidate_of os c) then
        (case rglob (fnmatch os) fs (target_dir_of os c) (libname_of os c) of
           [] \<Rightarrow> Inl (not_found_error os c)
         | p # ps \<Rightarrow> Inr p)
      else Inr (candidate_of os c))"

text \<open>Lines 64-96, the branch \<^verbatim>\<open>if rebuild:\<close>.\<close>

definition rebuild :: "'f os_env \<Rightarrow> 't closure \<Rightarrow> path io" where
  "rebuild os c =
     bind_io (write_workspace os c) (\<lambda>u.
     bind_io (run_build os c) (\<lambda>u.
     read_fs (resolve_artifact os c)))"

text \<open>
  Lines 98-118: the library is loaded, the symbol looked up, and the placeholder function
  replaced by \<^verbatim>\<open>wrapper\<close>, a closure over the foreign function \<^verbatim>\<open>cfn\<close> with its
  \<^verbatim>\<open>argtypes\<close> and \<^verbatim>\<open>restype\<close> set, carrying four attributes.
\<close>

record pyfunc =
  py_name :: string
  py_doc :: "string option"

record ('f, 't) bound =
  cfn :: 'f
  cfn_argtypes :: "'t list"
  cfn_restype :: 't
  w_name :: string
  w_doc :: "string option"
  w_source_lib :: string
  w_rust_fn :: string

definition symbol_error :: "string \<Rightarrow> error" where
  "symbol_error fname =
     RuntimeError (''Cannot find the function: '' @ SQ @ fname @ SQ
        @ ''. Ensure using #[no_mangle] when define the function pub extern '' @ DQ @ ''C'' @ DQ
        @ '' fn '' @ fname @ ''(...).'')"

definition load_and_bind ::
  "'f os_env \<Rightarrow> 't closure \<Rightarrow> pyfunc \<Rightarrow> path \<Rightarrow> ('f, 't) bound io" where
  "load_and_bind os c f lib_path w =
     (case (case lookup (files w) lib_path of Some (File b) \<Rightarrow> cdll os b | _ \<Rightarrow> None) of
        None \<Rightarrow> (Inl (OSError ''OSError''), w)
      | Some symbols \<Rightarrow>
          (case symbols (fn_name c) of
             None \<Rightarrow> (Inl (symbol_error (fn_name c)), w)
           | Some g \<Rightarrow>
               (Inr \<lparr>cfn = g, cfn_argtypes = argtypes c, cfn_restype = restype c,
                      w_name = py_name f, w_doc = py_doc f,
                      w_source_lib = path_str lib_path, w_rust_fn = fn_name c\<rparr>, w)))"

text \<open>\<^verbatim>\<open>decorator(pyfunc)\<close> (lines 42-118).\<close>

definition decorator :: "'f os_env \<Rightarrow> 't closure \<Rightarrow> pyfunc \<Rightarrow> ('f, 't) bound io" where
  "decorator os c f =
     bind_io (ensure_tempdir os c) (\<lambda>u.
     bind_io (read_fs (cache_check os c)) (\<lambda>hit.
     bind_io (case hit of Some p \<Rightarrow> return_io p | None \<Rightarrow> rebuild os c) (\<lambda>lib_path.
     load_and_bind os c f lib_path)))"

text \<open>
  \<^verbatim>\<open>@rust.jit(...)\<close> above a function definition: the request is constructed, then the
  decorator is applied to the placeholder.
\<close>

definition jit ::
  "'f os_env \<Rightarrow> string \<Rightarrow> string \<Rightarrow> 't list \<Rightarrow> 't \<Rightarrow> string option \<Rightarrow> string list option
     \<Rightarrow> pyfunc \<Rightarrow> ('f, 't) bound io" where
  "jit os src fname atypes rtype cname extra f w =
     (case rust_jit os src fname atypes rtype cname extra of
        Inl e \<Rightarrow> (Inl e, w)
      | Inr c \<Rightarrow> decorator os c f w)"

text \<open>
  \<^verbatim>\<open>wrapper(*args, **kwargs)\<close> (lines 109-112). Calling the foreign function is an effect
  on the native side, a state of type \<open>'n\<close>; \<open>ccall\<close> is ctypes' call of a foreign function
  under its declared argument and result types. A non-empty \<^verbatim>\<open>kwargs\<close> is true.
\<close>

definition wrapper ::
  "('f \<Rightarrow> 't list \<Rightarrow> 't \<Rightarrow> 'v list \<Rightarrow> 'n \<Rightarrow> (error + 'v) \<times> 'n) \<Rightarrow> ('f, 't) bound
     \<Rightarrow> 'v list \<Rightarrow> (string \<times> 'v) list \<Rightarrow> 'n \<Rightarrow> (error + 'v) \<times> 'n" where
  "wrapper ccall b args kwargs n =
     (if kwargs \<noteq> [] then (Inl (TypeError ''Unsupported''), n)
      else ccall (cfn b) (cfn_argtypes b) (cfn_restype b) args n)"

section \<open>Cache states\<close>

text \<open>
  The part of \<^verbatim>\<open>decorator\<close> that stands before the build (lines 43-77): the workspace
  directory, the cache check and, on a miss, the files of the compilation unit. It is the
  specification's \<^verbatim>\<open>prepare\<close>; its result is the library to reuse, or \<open>None\<close> when the
  compiler must run.
\<close>

definition prepare :: "'f os_env \<Rightarrow> 't closure \<Rightarrow> path option io" where
  "prepare os c =
     bind_io (ensure_tempdir os c) (\<lambda>u.
     bind_io (read_fs (cache_check os c)) (\<lambda>hit.
       case hit of
         Some p \<Rightarrow> return_io (Some p)
       | None \<Rightarrow> bind_io (write_workspace os c) (\<lambda>u. return_io None)))"

text \<open>
  The state \<open>FRESH\<close> in the specification's words: the cached source on disk matches the
  requested source text (it is a text file that reads back as the requested text) and the
  expected artifact exists at the fixed release path.
\<close>

definition FRESH :: "'f os_env \<Rightarrow> 't closure \<Rightarrow> filesys \<Rightarrow> bool" where
  "FRESH os c fs =
     ((case lookup fs (src_file_of os c) of
         Some (File b) \<Rightarrow> utf8_valid b \<and> universal_newlines b = rust_src c
       | _ \<Rightarrow> False)
      \<and> path_exists fs (candidate_of os c))"

text \<open>The files of a workspace after the compilation unit \<open>c\<close> has been written over them.\<close>

definition superseded :: "'f os_env \<Rightarrow> 't closure \<Rightarrow> filesys \<Rightarrow> filesys" where
  "superseded os c fs =
     AList.update (src_file_of os c) (File (rust_src c))
       (AList.update (cargo_toml_of os c) (File (manifest (crate_name c))) fs)"

section \<open>A small host for concrete runs\<close>

text \<open>
  A Linux host with \<^verbatim>\<open>cargo\<close> on the search path and \<open>/tmp\<close> as temporary directory. Its
  compiler is a stub: it ends with the outcome \<open>r\<close> and writes the bytes \<open>ELF\<close> to the path
  \<open>out\<close> below its working directory, creating the directories on the way. The loader accepts exactly these bytes as a library
  exporting \<open>add_i32\<close>.
\<close>

definition demo_src :: string where
  "demo_src = ''#[no_mangle] pub extern fn add_i32(a: i32, b: i32) -> i32 { a + b }''"

definition demo_src2 :: string where
  "demo_src2 = ''#[no_mangle] pub extern fn add_i32(a: i32, b: i32) -> i32 { b + a }''"

definition demo_cargo :: "proc \<Rightarrow> path \<Rightarrow> string list \<Rightarrow> path \<Rightarrow> filesys \<Rightarrow> proc \<times> filesys" where
  "demo_cargo r out cmd cwd fs =
     (case mkdir_parents fs (cwd @ butlast out) of
        Inl e \<Rightarrow> (r, fs)
      | Inr fs' \<Rightarrow> (r, AList.update (cwd @ out) (File ''ELF'') fs'))"

definition demo_os :: "(string list \<Rightarrow> path \<Rightarrow> filesys \<Rightarrow> proc \<times> filesys) \<Rightarrow> nat os_env" where
  "demo_os cargo =
     \<lparr>sys_platform = ''linux'',
      which = (\<lambda>n. if n = ''cargo'' then Some ''/usr/bin/cargo'' else None),
      gettempdir = [''tmp''],
      subprocess_run = cargo,
      fnmatch = (=),
      cdll = (\<lambda>b. if b = ''ELF'' then Some (\<lambda>n. if n = ''add_i32'' then Some 7 else None)
                  else None)\<rparr>"

definition demo_closure :: "string \<Rightarrow> nat closure" where
  "demo_closure src =
     \<lparr>rust_src = src, fn_name = ''add_i32'', argtypes = [32, 32], restype = 32,
      crate_name = ''demo'', cargo_extra_args = []\<rparr>"

definition demo_f :: pyfunc where
  "demo_f = \<lparr>py_name = ''add_i32'', py_doc = None\<rparr>"

text \<open>
  Worlds: an empty temporary directory; a workspace of \<open>demo\<close> holding the manifest and
  the source \<open>demo_src\<close>, without a library, with the library at the fixed release path,
  and with the library only in a nested directory of the release folder.
\<close>

definition demo_empty :: world where
  "demo_empty = \<lparr>files = [([''tmp''], Dir)], runs = []\<rparr>"

definition demo_tree :: filesys where
  "demo_tree =
     [([''tmp''], Dir),
      ([''tmp'', ''rustjit_demo''], Dir),
      ([''tmp'', ''rustjit_demo'', ''Cargo.toml''], File (manifest ''demo'')),
      ([''tmp'', ''rustjit_demo'', ''src''], Dir),
      ([''tmp'', ''rustjit_demo'', ''src'', ''lib.rs''], File demo_src),
      ([''tmp'', ''rustjit_demo'', ''target''], Dir),
      ([''tmp'', ''rustjit_demo'', ''target'', ''release''], Dir)]"

definition demo_stale :: world where
  "demo_stale = \<lparr>files = demo_tree, runs = []\<rparr>"

definition demo_fresh :: world where
  "demo_fresh =
     \<lparr>files = demo_tree @
        [([''tmp'', ''rustjit_demo'', ''target'', ''release'', ''libdemo.so''], File ''ELF'')],
      runs = []\<rparr>"

definition demo_nested :: world where
  "demo_nested =
     \<lparr>files = demo_tree @
        [([''tmp'', ''rustjit_demo'', ''target'', ''release'', ''deps''], Dir),
         ([''tmp'', ''rustjit_demo'', ''target'', ''release'', ''deps'', ''libdemo.so''],
          File ''ELF'')],
      runs = []\<rparr>"

text \<open>
  The stub compilers: one that succeeds and leaves the library at the fixed release path,
  one that succeeds and leaves it in the nested directory \<open>deps\<close>, one that succeeds and
  leaves no library, and one that fails with output \<open>out\<close> and \<open>err\<close> (touching only a log
  file). \<open>demo_jit\<close> is the request for \<open>add_i32\<close> under the logical name \<open>demo\<close>.
\<close>

definition cargo_ok :: "string list \<Rightarrow> path \<Rightarrow> filesys \<Rightarrow> proc \<times> filesys" where
  "cargo_ok = demo_cargo (Exited 0 [] []) [''target'', ''release'', ''libdemo.so'']"

definition cargo_nested :: "string list \<Rightarrow> path \<Rightarrow> filesys \<Rightarrow> proc \<times> filesys" where
  "cargo_nested = demo_cargo (Exited 0 [] []) [''target'', ''release'', ''deps'', ''libdemo.so'']"

definition cargo_nothing :: "string list \<Rightarrow> path \<Rightarrow> filesys \<Rightarrow> proc \<times> filesys" where
  "cargo_nothing = demo_cargo (Exited 0 [] []) [''build.log'']"

definition cargo_fails :: "string \<Rightarrow> string \<Rightarrow> string list \<Rightarrow> path \<Rightarrow> filesys \<Rightarrow> proc \<times> filesys" where
  "cargo_fails out err = demo_cargo (Exited 101 out err) [''build.log'']"

definition demo_jit ::
  "(string list \<Rightarrow> path \<Rightarrow> filesys \<Rightarrow> proc \<times> filesys) \<Rightarrow> string \<Rightarrow> string list option
     \<Rightarrow> (nat, nat) bound io" where
  "demo_jit cargo src extra =
     jit (demo_os cargo) src ''add_i32'' [32, 32] 32 (Some ''demo'') extra demo_f"

text \<open>
  A bound function, and a foreign call that adds its arguments on a native side that
  counts the calls made.
\<close>

definition demo_bound :: "(nat, nat) bound" where
  "demo_bound =
     \<lparr>cfn = 7, cfn_argtypes = [32, 32], cfn_restype = 32, w_name = ''add_i32'', w_doc = None,
      w_source_lib = ''/tmp/rustjit_demo/target/release/libdemo.so'', w_rust_fn = ''add_i32''\<rparr>"

definition demo_ccall :: "nat \<Rightarrow> nat list \<Rightarrow> nat \<Rightarrow> int list \<Rightarrow> nat \<Rightarrow> (error + int) \<times> nat" where
  "demo_ccall g atypes rtype args calls = (Inr (sum_list args), Suc calls)"

text \<open>The same host without \<^verbatim>\<open>cargo\<close> on its search path.\<close>

definition demo_os_no_cargo :: "nat os_env" where
  "demo_os_no_cargo = (demo_os cargo_ok)\<lparr>which := (\<lambda>n. None)\<rparr>"


section \<open>Auxiliary facts\<close>

subsection \<open>The digest\<close>

lemma length_be_bytes: "length (be_bytes sh w) = length sh"
  by (simp add: be_bytes_def)

lemma length_sha256: "length (sha256 m) = 32"
  by (simp add: sha256_def length_be_bytes split: prod.split)

lemma length_hexdigest: "length (hexdigest bs) = 2 * length bs"
  by (induction bs) (simp_all add: hexdigest_def)

lemma hexdigit_hex: "n < 16 \<Longrightarrow> hexdigit n \<in> set ''0123456789abcdef''"
  unfolding hexdigit_def by (rule nth_mem) simp

lemma of_char_div16: "(of_char b :: nat) div 16 < 16"
  using nat_of_char_less_256 [of b] by presburger

lemma set_hexdigest: "set (hexdigest bs) \<subseteq> set ''0123456789abcdef''"
proof (induction bs)
  case Nil
  show ?case by (simp add: hexdigest_def)
next
  case (Cons b bs)
  have "hexdigest (b # bs) = [hexdigit (of_char b div 16), hexdigit (of_char b mod 16)] @ hexdigest bs"
    by (simp add: hexdigest_def)
  moreover have "hexdigit (of_char b div 16) \<in> set ''0123456789abcdef''"
    by (rule hexdigit_hex) (rule of_char_div16)
  moreover have "hexdigit (of_char b mod 16) \<in> set ''0123456789abcdef''"
    by (rule hexdigit_hex) simp
  ultimately show ?case using Cons.IH by (simp only: set_append list.set(2) insert_subset Un_subset_iff list.set(1) empty_subsetI simp_thms)
qed

lemma hash_src_12: "length (hash_src s) = 12 \<and> set (hash_src s) \<subseteq> set ''0123456789abcdef''"
proof
  show "length (hash_src s) = 12"
    by (simp add: hash_src_def length_hexdigest length_sha256)
  have "set (take 12 (hexdigest (sha256 s))) \<subseteq> set (hexdigest (sha256 s))"
    by (rule set_take_subset)
  then show "set (hash_src s) \<subseteq> set ''0123456789abcdef''"
    unfolding hash_src_def using set_hexdigest [of "sha256 s"] by (rule subset_trans)
qed

subsection \<open>Decoding and the file system\<close>

lemma decode_output_eq: "decode_output b = decode_ignore b"
  by (simp add: decode_output_def)

lemma utf8_scan_le: "utf8_scan s = (ok, n) \<Longrightarrow> n \<le> length s"
  by (cases s) (auto simp: Let_def split: if_splits list.splits)

lemma utf8_scan_pos: "utf8_scan (a # r) = (ok, n) \<Longrightarrow> 0 < n"
  by (auto simp: Let_def split: if_splits list.splits)

lemma utf8_valid_decode: "utf8_valid s \<Longrightarrow> decode_ignore s = s"
proof (induction s rule: utf8_valid.induct)
  case 1
  show ?case by simp
next
  case (2 a r)
  obtain ok n where scan: "utf8_scan (a # r) = (ok, n)"
    by (cases "utf8_scan (a # r)")
  from "2.prems" scan have ok: ok and rest: "utf8_valid (drop (n - 1) r)"
    by simp_all
  from scan have pos: "0 < n" by (rule utf8_scan_pos)
  have "decode_ignore (drop (n - 1) r) = drop (n - 1) r"
    using "2.IH" [OF scan [symmetric]] rest by simp
  moreover have "drop (n - 1) r = drop n (a # r)"
    using pos by (cases n) simp_all
  ultimately have "decode_ignore (a # r) = take n (a # r) @ drop n (a # r)"
    using scan ok by simp
  then show ?case by (simp only: append_take_drop_id)
qed

lemma universal_newlines_id: "CHR 0x0D \<notin> set s \<Longrightarrow> universal_newlines s = s"
  by (induction s rule: universal_newlines.induct) auto

lemma lookup_update:
  "p \<noteq> [] \<Longrightarrow> lookup (AList.update p n fs) q = (if q = p then Some n else lookup fs q)"
  by (simp add: lookup_def update_conv')

lemma write_text_lookup:
  "write_text fs p s = Inr fs' \<Longrightarrow> lookup fs' q = (if q = p then Some (File s) else lookup fs q)"
  by (auto simp: write_text_def lookup_def update_conv' split: option.splits node.splits if_splits)

lemma os_mkdir_lookup:
  "os_mkdir fs p = Inr fs' \<Longrightarrow> lookup fs' q = (if q = p then Some Dir else lookup fs q)"
  by (auto simp: os_mkdir_def path_exists_def lookup_def map_add_def
           split: option.splits if_splits)

lemma mkdir_exist_ok_lookup:
  "mkdir_exist_ok fs p = Inr fs' \<Longrightarrow> lookup fs' q = (if q = p then Some Dir else lookup fs q)"
  by (auto simp: mkdir_exist_ok_def is_dir_def os_mkdir_lookup split: sum.splits if_splits)

lemma mkdir_parents_lookup:
  "mkdir_parents fs p = Inr fs' \<Longrightarrow>
     is_dir fs' p \<and> (\<forall>q. \<not> prefix q p \<longrightarrow> lookup fs' q = lookup fs q)"
proof (induction fs p arbitrary: fs' rule: mkdir_parents.induct)
  case (1 fs p)
  show ?case
  proof (cases "os_mkdir fs p")
    case (Inr fs1)
    with "1.prems" have "fs' = fs1" by (simp add: mkdir_parents.simps [of fs p])
    with Inr show ?thesis by (auto simp: is_dir_def os_mkdir_lookup)
  next
    case (Inl e)
    show ?thesis
    proof (cases "e = OSError ''FileNotFoundError''")
      case False
      with Inl "1.prems" show ?thesis
        by (auto simp: mkdir_parents.simps [of fs p] split: if_splits)
    next
      case True
      with Inl "1.prems" have ne: "p \<noteq> []"
        by (auto simp: mkdir_parents.simps [of fs p] split: if_splits)
      from True Inl "1.prems" ne obtain fs1 where
        par: "mkdir_parents fs (butlast p) = Inr fs1" and last: "mkdir_exist_ok fs1 p = Inr fs'"
        by (auto simp: mkdir_parents.simps [of fs p] split: sum.splits)
      from "1.IH" [OF Inl True ne par]
      have keep: "\<forall>q. \<not> prefix q (butlast p) \<longrightarrow> lookup fs1 q = lookup fs q" by simp
      have "\<not> prefix q p \<Longrightarrow> \<not> prefix q (butlast p)" for q
        by (meson prefix_order.trans prefixeq_butlast)
      with keep last show ?thesis
        by (auto simp: is_dir_def mkdir_exist_ok_lookup)
    qed
  qed
qed

subsection \<open>The compiler runs of a request\<close>

lemma lift_fs_runs: "lift_fs g w = (r, w') \<Longrightarrow> runs w' = runs w"
  by (auto simp: lift_fs_def split: sum.splits)

lemma read_fs_world: "read_fs g w = (r, w') \<Longrightarrow> w' = w"
  by (auto simp: read_fs_def split: sum.splits)

lemma ensure_tempdir_runs: "ensure_tempdir os c w = (r, w') \<Longrightarrow> runs w' = runs w"
  by (auto simp: ensure_tempdir_def dest: lift_fs_runs split: if_splits)

lemma write_workspace_runs: "write_workspace os c w = (r, w') \<Longrightarrow> runs w' = runs w"
  by (auto simp: write_workspace_def bind_io_def dest!: lift_fs_runs split: prod.splits sum.splits)

lemma run_build_runs:
  "run_build os c w = (r, w') \<Longrightarrow> runs w' = runs w @ [(build_cmd, tempdir_of os c)]"
  by (auto simp: run_build_def Let_def split: prod.splits proc.splits if_splits)

lemma rebuild_runs:
  "rebuild os c w = (r, w') \<Longrightarrow>
     runs w' = runs w \<or> runs w' = runs w @ [(build_cmd, tempdir_of os c)]"
  by (auto simp: rebuild_def bind_io_def
           dest!: write_workspace_runs run_build_runs read_fs_world
           split: prod.splits sum.splits)

lemma load_and_bind_world: "load_and_bind os c f p w = (r, w') \<Longrightarrow> w' = w"
  by (auto simp: load_and_bind_def split: option.splits node.splits)

lemma decorator_runs:
  "decorator os c f w = (r, w') \<Longrightarrow>
     runs w' = runs w \<or> runs w' = runs w @ [(build_cmd, tempdir_of os c)]"
  by (auto simp: decorator_def bind_io_def return_io_def
           dest!: ensure_tempdir_runs read_fs_world rebuild_runs load_and_bind_world
           split: prod.splits sum.splits option.splits)

lemma paths_extra_args:
  "tempdir_of os (c\<lparr>cargo_extra_args := x\<rparr>) = tempdir_of os c"
  "src_file_of os (c\<lparr>cargo_extra_args := x\<rparr>) = src_file_of os c"
  "cargo_toml_of os (c\<lparr>cargo_extra_args := x\<rparr>) = cargo_toml_of os c"
  "target_dir_of os (c\<lparr>cargo_extra_args := x\<rparr>) = target_dir_of os c"
  "libname_of os (c\<lparr>cargo_extra_args := x\<rparr>) = libname_of os c"
  "candidate_of os (c\<lparr>cargo_extra_args := x\<rparr>) = candidate_of os c"
  by (simp_all add: tempdir_of_def src_file_of_def cargo_toml_of_def target_dir_of_def
        libname_of_def candidate_of_def)

lemma steps_extra_args:
  "ensure_tempdir os (c\<lparr>cargo_extra_args := x\<rparr>) = ensure_tempdir os c"
  "cache_check os (c\<lparr>cargo_extra_args := x\<rparr>) = cache_check os c"
  "write_workspace os (c\<lparr>cargo_extra_args := x\<rparr>) = write_workspace os c"
  "run_build os (c\<lparr>cargo_extra_args := x\<rparr>) = run_build os c"
  "resolve_artifact os (c\<lparr>cargo_extra_args := x\<rparr>) = resolve_artifact os c"
  "load_and_bind os (c\<lparr>cargo_extra_args := x\<rparr>) = load_and_bind os c"
proof -
  show "ensure_tempdir os (c\<lparr>cargo_extra_args := x\<rparr>) = ensure_tempdir os c"
    by (rule ext) (simp add: ensure_tempdir_def paths_extra_args cong: if_cong sum.case_cong list.case_cong prod.case_cong proc.case_cong)
  show "cache_check os (c\<lparr>cargo_extra_args := x\<rparr>) = cache_check os c"
    by (rule ext) (simp add: cache_check_def paths_extra_args cong: if_cong sum.case_cong list.case_cong prod.case_cong proc.case_cong)
  show "write_workspace os (c\<lparr>cargo_extra_args := x\<rparr>) = write_workspace os c"
    by (simp add: write_workspace_def paths_extra_args cong: if_cong sum.case_cong list.case_cong prod.case_cong proc.case_cong)
  show "run_build os (c\<lparr>cargo_extra_args := x\<rparr>) = run_build os c"
    by (rule ext) (simp add: run_build_def paths_extra_args cong: if_cong sum.case_cong list.case_cong prod.case_cong proc.case_cong)
  show "resolve_artifact os (c\<lparr>cargo_extra_args := x\<rparr>) = resolve_artifact os c"
    by (rule ext) (simp add: resolve_artifact_def not_found_error_def paths_extra_args cong: if_cong sum.case_cong list.case_cong prod.case_cong proc.case_cong)
  show "load_and_bind os (c\<lparr>cargo_extra_args := x\<rparr>) = load_and_bind os c"
    by (intro ext) (simp add: load_and_bind_def cong: option.case_cong node.case_cong)
qed

lemma rebuild_extra_args: "rebuild os (c\<lparr>cargo_extra_args := x\<rparr>) = rebuild os c"
  by (simp add: rebuild_def steps_extra_args)

lemma decorator_extra_args:
  "decorator os (c\<lparr>cargo_extra_args := x\<rparr>) f w = decorator os c f w"
  by (simp add: decorator_def rebuild_extra_args steps_extra_args cong: option.case_cong)

lemma paths_which:
  "tempdir_of (os\<lparr>which := wh\<rparr>) c = tempdir_of os c"
  "src_file_of (os\<lparr>which := wh\<rparr>) c = src_file_of os c"
  "cargo_toml_of (os\<lparr>which := wh\<rparr>) c = cargo_toml_of os c"
  "target_dir_of (os\<lparr>which := wh\<rparr>) c = target_dir_of os c"
  "libname_of (os\<lparr>which := wh\<rparr>) c = libname_of os c"
  "candidate_of (os\<lparr>which := wh\<rparr>) c = candidate_of os c"
  by (simp_all add: tempdir_of_def src_file_of_def cargo_toml_of_def target_dir_of_def
        libname_of_def candidate_of_def)

lemma steps_which:
  "ensure_tempdir (os\<lparr>which := wh\<rparr>) c = ensure_tempdir os c"
  "cache_check (os\<lparr>which := wh\<rparr>) c = cache_check os c"
  "write_workspace (os\<lparr>which := wh\<rparr>) c = write_workspace os c"
  "run_build (os\<lparr>which := wh\<rparr>) c = run_build os c"
  "resolve_artifact (os\<lparr>which := wh\<rparr>) c = resolve_artifact os c"
  "load_and_bind (os\<lparr>which := wh\<rparr>) c = load_and_bind os c"
proof -
  show "ensure_tempdir (os\<lparr>which := wh\<rparr>) c = ensure_tempdir os c"
    by (rule ext) (simp add: ensure_tempdir_def paths_which cong: if_cong sum.case_cong list.case_cong prod.case_cong proc.case_cong)
  show "cache_check (os\<lparr>which := wh\<rparr>) c = cache_check os c"
    by (rule ext) (simp add: cache_check_def paths_which cong: if_cong sum.case_cong list.case_cong prod.case_cong proc.case_cong)
  show "write_workspace (os\<lparr>which := wh\<rparr>) c = write_workspace os c"
    by (simp add: write_workspace_def paths_which cong: if_cong sum.case_cong list.case_cong prod.case_cong proc.case_cong)
  show "run_build (os\<lparr>which := wh\<rparr>) c = run_build os c"
    by (rule ext) (simp add: run_build_def paths_which cong: if_cong sum.case_cong list.case_cong prod.case_cong proc.case_cong)
  show "resolve_artifact (os\<lparr>which := wh\<rparr>) c = resolve_artifact os c"
    by (rule ext) (simp add: resolve_artifact_def not_found_error_def paths_which cong: if_cong sum.case_cong list.case_cong prod.case_cong proc.case_cong)
  show "load_and_bind (os\<lparr>which := wh\<rparr>) c = load_and_bind os c"
    by (intro ext) (simp add: load_and_bind_def cong: option.case_cong node.case_cong)
qed

lemma rebuild_which: "rebuild (os\<lparr>which := wh\<rparr>) c = rebuild os c"
  by (simp add: rebuild_def steps_which)

lemma decorator_which:
  "decorator (os\<lparr>which := wh\<rparr>) c f w = decorator os c f w"
  by (simp add: decorator_def rebuild_which steps_which cong: option.case_cong)

subsection \<open>Unfolding for concrete runs\<close>

lemmas demo_defs =
  demo_jit_def demo_os_def demo_cargo_def cargo_ok_def cargo_nested_def cargo_nothing_def
  cargo_fails_def demo_closure_def demo_f_def demo_empty_def demo_tree_def demo_stale_def
  demo_fresh_def demo_nested_def demo_src_def demo_src2_def demo_os_no_cargo_def

lemmas program_defs =
  jit_def rust_jit_def ensure_cargo_exists_def py_or_def decorator_def bind_io_def return_io_def
  lift_fs_def read_fs_def ensure_tempdir_def cache_check_def rebuild_def write_workspace_def
  run_build_def build_cmd_def resolve_artifact_def not_found_error_def load_and_bind_def
  tempdir_of_def src_file_of_def cargo_toml_of_def target_dir_of_def libname_of_def
  candidate_of_def platform_libname_def pjoin_def path_parts_def path_str_def
  path_exists_def lookup_def is_dir_def is_file_def parent_error_def os_mkdir_def
  mkdir_exist_ok_def mkdir_parents.simps write_text_def read_text_def rglob_def prepare_def
  FRESH_def Let_def

subsection \<open>Before and after the build\<close>

lemma workspace_paths:
  "pjoin p ''src'' = p @ [''src'']"
  "src_file_of os c = tempdir_of os c @ [''src'', ''lib.rs'']"
  "cargo_toml_of os c = tempdir_of os c @ [''Cargo.toml'']"
  "target_dir_of os c = tempdir_of os c @ [''target'', ''release'']"
  by (simp_all add: src_file_of_def cargo_toml_of_def target_dir_of_def pjoin_def path_parts_def)

lemma decorator_prepare:
  "decorator os c f w =
     (case prepare os c w of
        (Inl e, w1) \<Rightarrow> (Inl e, w1)
      | (Inr (Some p), w1) \<Rightarrow> load_and_bind os c f p w1
      | (Inr None, w1) \<Rightarrow>
          bind_io (run_build os c) (\<lambda>u.
          bind_io (read_fs (resolve_artifact os c)) (load_and_bind os c f)) w1)"
  by (simp add: decorator_def prepare_def rebuild_def bind_io_def return_io_def
           split: prod.splits sum.splits option.splits)

lemma prepare_runs: "prepare os c w = (r, w1) \<Longrightarrow> runs w1 = runs w"
  by (auto simp: prepare_def bind_io_def return_io_def
           dest!: ensure_tempdir_runs read_fs_world write_workspace_runs
           split: prod.splits sum.splits option.splits)

lemma decorator_built:
  assumes "prepare os c w = (Inr None, w1)"
    and "subprocess_run os build_cmd (tempdir_of os c) (files w1) = (r, fs2)"
  shows "decorator os c f w =
     (case r of
        SpawnError e \<Rightarrow>
          (Inl e, w1\<lparr>files := fs2, runs := runs w @ [(build_cmd, tempdir_of os c)]\<rparr>)
      | Exited rc out err \<Rightarrow>
          if rc \<noteq> 0
          then (Inl (compile_error out err),
                w1\<lparr>files := fs2, runs := runs w @ [(build_cmd, tempdir_of os c)]\<rparr>)
          else (case resolve_artifact os c fs2 of
                  Inl e \<Rightarrow>
                    (Inl e, w1\<lparr>files := fs2, runs := runs w @ [(build_cmd, tempdir_of os c)]\<rparr>)
                | Inr p \<Rightarrow>
                    load_and_bind os c f p
                      (w1\<lparr>files := fs2, runs := runs w @ [(build_cmd, tempdir_of os c)]\<rparr>)))"
  using assms prepare_runs [OF assms(1)]
  by (simp add: decorator_prepare bind_io_def run_build_def read_fs_def Let_def
           split: proc.splits sum.splits)

lemma read_text_Inr:
  "read_text fs p = Inr x \<longleftrightarrow>
     (\<exists>b. lookup fs p = Some (File b) \<and> utf8_valid b \<and> x = universal_newlines b)"
  by (auto simp: read_text_def split: option.splits node.splits)

lemma FRESH_iff:
  "FRESH os c fs \<longleftrightarrow>
     (\<exists>b. lookup fs (src_file_of os c) = Some (File b) \<and> utf8_valid b
          \<and> universal_newlines b = rust_src c) \<and> path_exists fs (candidate_of os c)"
  by (auto simp: FRESH_def split: option.splits node.splits)

lemma cache_check_hit:
  "cache_check os c fs = Inr (Some p) \<longleftrightarrow> FRESH os c fs \<and> p = candidate_of os c"
proof
  assume hit: "cache_check os c fs = Inr (Some p)"
  then obtain existing where rd: "read_text fs (src_file_of os c) = Inr existing"
    and eq: "existing = rust_src c" and cand: "path_exists fs (candidate_of os c)"
    and p: "p = candidate_of os c"
    by (auto simp: cache_check_def split: if_splits sum.splits)
  from rd obtain b where "lookup fs (src_file_of os c) = Some (File b)" "utf8_valid b"
    "existing = universal_newlines b"
    by (auto simp: read_text_Inr)
  with eq cand p show "FRESH os c fs \<and> p = candidate_of os c"
    by (auto simp: FRESH_iff)
next
  assume "FRESH os c fs \<and> p = candidate_of os c"
  then obtain b where b: "lookup fs (src_file_of os c) = Some (File b)" "utf8_valid b"
    "universal_newlines b = rust_src c" and cand: "path_exists fs (candidate_of os c)"
    and p: "p = candidate_of os c"
    by (auto simp: FRESH_iff)
  from b have "read_text fs (src_file_of os c) = Inr (rust_src c)"
    by (auto simp: read_text_Inr)
  moreover from b have "path_exists fs (src_file_of os c)"
    by (simp add: path_exists_def)
  ultimately show "cache_check os c fs = Inr (Some p)"
    using cand p by (simp add: cache_check_def)
qed

lemma os_mkdir_mono:
  assumes "os_mkdir fs p = Inr fs'" and "lookup fs q \<noteq> None"
  shows "lookup fs' q = lookup fs q"
proof -
  from assms(1) have "\<not> path_exists fs p"
    by (auto simp: os_mkdir_def split: if_splits)
  with assms(2) have "q \<noteq> p" by (auto simp: path_exists_def)
  with os_mkdir_lookup [OF assms(1), of q] show ?thesis by simp
qed

lemma mkdir_exist_ok_mono:
  assumes "mkdir_exist_ok fs p = Inr fs'" and "lookup fs q \<noteq> None"
  shows "lookup fs' q = lookup fs q"
proof (cases "os_mkdir fs p")
  case (Inr fs1)
  with assms(1) have "fs' = fs1" by (simp add: mkdir_exist_ok_def)
  with Inr assms(2) show ?thesis by (simp add: os_mkdir_mono)
next
  case (Inl e)
  with assms(1) have "fs' = fs" by (auto simp: mkdir_exist_ok_def split: if_splits)
  then show ?thesis by simp
qed

lemma mkdir_parents_mono:
  "mkdir_parents fs p = Inr fs' \<Longrightarrow> lookup fs q \<noteq> None \<Longrightarrow> lookup fs' q = lookup fs q"
proof (induction fs p arbitrary: fs' rule: mkdir_parents.induct)
  case (1 fs p)
  show ?case
  proof (cases "os_mkdir fs p")
    case (Inr fs1)
    with "1.prems"(1) have "fs' = fs1" by (simp add: mkdir_parents.simps [of fs p])
    with Inr "1.prems"(2) show ?thesis by (simp add: os_mkdir_mono)
  next
    case (Inl e)
    show ?thesis
    proof (cases "e = OSError ''FileNotFoundError''")
      case False
      with Inl "1.prems" show ?thesis
        by (auto simp: mkdir_parents.simps [of fs p] split: if_splits)
    next
      case True
      with Inl "1.prems" have ne: "p \<noteq> []"
        by (auto simp: mkdir_parents.simps [of fs p] split: if_splits)
      from True Inl "1.prems" ne obtain fs1 where
        par: "mkdir_parents fs (butlast p) = Inr fs1" and last: "mkdir_exist_ok fs1 p = Inr fs'"
        by (auto simp: mkdir_parents.simps [of fs p] split: sum.splits)
      from "1.IH" [OF Inl True ne par] "1.prems"(2)
      have "lookup fs1 q = lookup fs q" by simp
      moreover from this "1.prems"(2) have "lookup fs1 q \<noteq> None" by simp
      ultimately show ?thesis using mkdir_exist_ok_mono [OF last, of q] by simp
    qed
  qed
qed

lemma ensure_tempdir_mono:
  "ensure_tempdir os c w = (Inr u, w0) \<Longrightarrow> lookup (files w) q \<noteq> None
     \<Longrightarrow> lookup (files w0) q = lookup (files w) q"
  by (auto simp: ensure_tempdir_def lift_fs_def split: if_splits sum.splits
           dest: mkdir_parents_mono)

lemma FRESH_mono:
  assumes "FRESH os c fs" and "\<And>q. lookup fs q \<noteq> None \<Longrightarrow> lookup fs' q = lookup fs q"
  shows "FRESH os c fs'"
proof -
  from assms(1) have "lookup fs (src_file_of os c) \<noteq> None" "lookup fs (candidate_of os c) \<noteq> None"
    by (auto simp: FRESH_def path_exists_def split: option.splits)
  then have "lookup fs' (src_file_of os c) = lookup fs (src_file_of os c)"
    and "lookup fs' (candidate_of os c) = lookup fs (candidate_of os c)"
    by (simp_all add: assms(2))
  with assms(1) show ?thesis by (simp add: FRESH_def path_exists_def)
qed

lemma prepare_FRESH:
  assumes "FRESH os c (files w)"
  shows "(\<exists>e w1. prepare os c w = (Inl e, w1)) \<or>
         (\<exists>w1. prepare os c w = (Inr (Some (candidate_of os c)), w1) \<and> FRESH os c (files w1))"
proof (cases "ensure_tempdir os c w")
  case (Pair r w0)
  show ?thesis
  proof (cases r)
    case (Inl e)
    with Pair show ?thesis by (simp add: prepare_def bind_io_def)
  next
    case (Inr u)
    with Pair have "FRESH os c (files w0)"
      using FRESH_mono [OF assms] ensure_tempdir_mono by blast
    then have "cache_check os c (files w0) = Inr (Some (candidate_of os c))"
      by (simp add: cache_check_hit)
    with Pair Inr \<open>FRESH os c (files w0)\<close> show ?thesis
      by (simp add: prepare_def bind_io_def read_fs_def return_io_def)
  qed
qed

lemma reuse_no_run:
  assumes "FRESH os c (files w)"
  shows "runs (snd (decorator os c f w)) = runs w"
proof -
  from prepare_FRESH [OF assms] show ?thesis
  proof
    assume "\<exists>e w1. prepare os c w = (Inl e, w1)"
    then obtain e w1 where p: "prepare os c w = (Inl e, w1)" by blast
    with prepare_runs [OF p] show ?thesis by (simp add: decorator_prepare)
  next
    assume "\<exists>w1. prepare os c w = (Inr (Some (candidate_of os c)), w1) \<and> FRESH os c (files w1)"
    then obtain w1 where p: "prepare os c w = (Inr (Some (candidate_of os c)), w1)" by blast
    obtain r w2 where l: "load_and_bind os c f (candidate_of os c) w1 = (r, w2)"
      by (cases "load_and_bind os c f (candidate_of os c) w1")
    from load_and_bind_world [OF l] l p prepare_runs [OF p] show ?thesis
      by (simp add: decorator_prepare)
  qed
qed


lemma decorator_built_world:
  assumes "prepare os c w = (Inr None, w1)"
    and "subprocess_run os build_cmd (tempdir_of os c) (files w1) = (r, fs2)"
  shows "snd (decorator os c f w)
           = w1\<lparr>files := fs2, runs := runs w @ [(build_cmd, tempdir_of os c)]\<rparr>"
proof -
  let ?w2 = "w1\<lparr>files := fs2, runs := runs w @ [(build_cmd, tempdir_of os c)]\<rparr>"
  have "snd (load_and_bind os c f p ?w2) = ?w2" for p
    using load_and_bind_world [of os c f p ?w2] by (cases "load_and_bind os c f p ?w2") simp
  then show ?thesis
    by (simp add: decorator_built [OF assms] split: proc.splits sum.splits)
qed

lemma bind_io_Inr:
  "bind_io m k w = (Inr y, w') \<Longrightarrow> \<exists>x w0. m w = (Inr x, w0) \<and> k x w0 = (Inr y, w')"
  by (cases "m w") (auto simp: bind_io_def split: sum.splits)

lemma lift_fs_Inr:
  "lift_fs g w = (Inr u, w') \<Longrightarrow> \<exists>fs'. g (files w) = Inr fs' \<and> files w' = fs'"
  by (cases "g (files w)") (auto simp: lift_fs_def)

lemma write_workspace_writes:
  assumes "write_workspace os c w0 = (Inr u, w1)"
  shows "lookup (files w1) (src_file_of os c) = Some (File (rust_src c))"
proof -
  from assms obtain u1 wa where
    "bind_io (lift_fs (\<lambda>fs. write_text fs (cargo_toml_of os c) (manifest (crate_name c))))
       (\<lambda>u. lift_fs (\<lambda>fs. write_text fs (src_file_of os c) (rust_src c))) wa = (Inr u, w1)"
    unfolding write_workspace_def by (blast dest: bind_io_Inr)
  then obtain u2 wb where
    "lift_fs (\<lambda>fs. write_text fs (src_file_of os c) (rust_src c)) wb = (Inr u, w1)"
    by (blast dest: bind_io_Inr)
  then obtain fs' where "write_text (files wb) (src_file_of os c) (rust_src c) = Inr fs'"
    and "files w1 = fs'"
    by (blast dest: lift_fs_Inr)
  with write_text_lookup [of "files wb" "src_file_of os c" "rust_src c" fs' "src_file_of os c"]
  show ?thesis by simp
qed

lemma prepare_None:
  assumes "prepare os c w = (Inr None, w1)"
  shows "\<exists>u w0. write_workspace os c w0 = (Inr u, w1)"
proof -
  obtain r0 w0 where e: "ensure_tempdir os c w = (r0, w0)"
    by (cases "ensure_tempdir os c w")
  obtain rw ww where ww: "write_workspace os c w0 = (rw, ww)"
    by (cases "write_workspace os c w0")
  from assms e ww have "rw = Inr () \<and> ww = w1"
    by (cases r0; cases "cache_check os c (files w0)"; cases rw)
       (auto simp: prepare_def bind_io_def read_fs_def return_io_def split: option.splits)
  with ww show ?thesis by blast
qed

lemma prepare_writes:
  assumes "prepare os c w = (Inr None, w1)"
  shows "lookup (files w1) (src_file_of os c) = Some (File (rust_src c))"
  using prepare_None [OF assms] write_workspace_writes by blast

lemma prepare_rebuild:
  assumes src: "lookup (files w) (src_file_of os c) = Some (File old)"
    and valid: "utf8_valid old"
    and differs: "universal_newlines old \<noteq> rust_src c"
    and tmp: "is_dir (files w) (tempdir_of os c)"
    and srcdir: "is_dir (files w) (tempdir_of os c @ [''src''])"
    and toml: "lookup (files w) (cargo_toml_of os c) \<noteq> Some Dir"
  shows "prepare os c w =
     (Inr None,
      w\<lparr>files := AList.update (src_file_of os c) (File (rust_src c))
                   (AList.update (cargo_toml_of os c) (File (manifest (crate_name c)))
                      (files w))\<rparr>)"
proof -
  let ?fs1 = "AList.update (cargo_toml_of os c) (File (manifest (crate_name c))) (files w)"
  have e: "ensure_tempdir os c w = (Inr (), w)"
    using tmp by (simp add: ensure_tempdir_def path_exists_def is_dir_def)
  have cc: "cache_check os c (files w) = Inr None"
    using src valid differs by (simp add: cache_check_def path_exists_def read_text_def)
  have m: "mkdir_exist_ok (files w) (pjoin (tempdir_of os c) ''src'') = Inr (files w)"
    using srcdir
    by (simp add: workspace_paths mkdir_exist_ok_def os_mkdir_def path_exists_def is_dir_def)
  have t: "write_text (files w) (cargo_toml_of os c) (manifest (crate_name c)) = Inr ?fs1"
    using tmp toml
    by (auto simp: write_text_def parent_error_def workspace_paths is_dir_def
             split: option.splits node.splits)
  have "lookup ?fs1 (src_file_of os c) = Some (File old)"
    using src by (simp add: lookup_update workspace_paths)
  then have s: "write_text ?fs1 (src_file_of os c) (rust_src c)
                  = Inr (AList.update (src_file_of os c) (File (rust_src c)) ?fs1)"
    by (simp add: write_text_def)
  have "write_workspace os c w
          = (Inr (), w\<lparr>files := AList.update (src_file_of os c) (File (rust_src c)) ?fs1\<rparr>)"
    using m t s by (simp add: write_workspace_def bind_io_def lift_fs_def)
  with e cc show ?thesis
    by (simp add: prepare_def bind_io_def read_fs_def return_io_def)
qed

lemma FRESH_after_build:
  assumes "lookup fs (src_file_of os c) = Some (File (rust_src c))"
    and "path_exists fs (candidate_of os c)"
    and "utf8_valid (rust_src c)" and "CHR 0x0D \<notin> set (rust_src c)"
  shows "FRESH os c fs"
  using assms by (simp add: FRESH_def universal_newlines_id)

section \<open>Properties\<close>

text \<open>
  Claim C7. The fingerprint of a source text is a function of the text alone (equal texts
  have equal fingerprints) and is exactly 12 lower-case hexadecimal characters long. It
  names the compilation unit (behind the prefix \<open>rustjit_\<close>) only when the caller supplies
  no logical name, that is \<^verbatim>\<open>None\<close> or the empty string, which \<^verbatim>\<open>crate_name or ...\<close> treats
  alike; a non-empty name supplied by the caller is used as it is.
\<close>

theorem hash_src_fingerprint:
  "(s = t \<longrightarrow> hash_src s = hash_src t) \<and>
   length (hash_src s) = 12 \<and>
   set (hash_src s) \<subseteq> set ''0123456789abcdef'' \<and>
   (rust_jit os s fname atypes rtype cname extra = Inr c \<longrightarrow>
      (case cname of
         None \<Rightarrow> crate_name c = ''rustjit_'' @ hash_src s
       | Some n \<Rightarrow> crate_name c = (if n = [] then ''rustjit_'' @ hash_src s else n)))"
proof -
  have "rust_jit os s fname atypes rtype cname extra = Inr c \<longrightarrow>
      (case cname of
         None \<Rightarrow> crate_name c = ''rustjit_'' @ hash_src s
       | Some n \<Rightarrow> crate_name c = (if n = [] then ''rustjit_'' @ hash_src s else n))"
    by (auto simp: rust_jit_def py_or_def Let_def split: sum.splits option.splits)
  with hash_src_12 [of s] show ?thesis by simp
qed

theorem hash_src_fingerprint_witness:
  "rust_jit (demo_os (demo_cargo (Exited 0 [] []) [])) demo_src ''add_i32'' [32, 32] 32
       (Some ''demo'') None
     = Inr (demo_closure demo_src) \<and>
   crate_name (demo_closure demo_src) = ''demo'' \<and>
   rust_jit (demo_os (demo_cargo (Exited 0 [] []) [])) demo_src ''add_i32'' [32, 32] 32 None None
     = Inr ((demo_closure demo_src)\<lparr>crate_name := ''rustjit_'' @ hash_src demo_src\<rparr>) \<and>
   length (''rustjit_'' @ hash_src demo_src) = 20"
  using hash_src_fingerprint [of demo_src demo_src "demo_os (demo_cargo (Exited 0 [] []) [])"
          "''add_i32''" "[32, 32]" 32 "Some ''demo''" None "demo_closure demo_src"]
        hash_src_fingerprint [of demo_src demo_src "demo_os (demo_cargo (Exited 0 [] []) [])"
          "''add_i32''" "[32, 32]" 32 None None
          "(demo_closure demo_src)\<lparr>crate_name := ''rustjit_'' @ hash_src demo_src\<rparr>"]
  by (simp add: rust_jit_def ensure_cargo_exists_def py_or_def demo_os_def demo_closure_def)

text \<open>
  Claim C8. For every logical name \<open>n\<close> the platform library name is determined by the
  host platform alone: \<open>lib<n>.so\<close> on Linux (any \<^verbatim>\<open>sys.platform\<close> starting with
  \<open>linux\<close>), \<open>lib<n>.dylib\<close> on \<open>darwin\<close>, \<open><n>.dll\<close> on \<open>win32\<close>, and on every other
  platform the function does not fail but falls back to \<open>lib<n>.so\<close>.
\<close>

theorem platform_libname_cases:
  "(prefix ''linux'' p \<longrightarrow> platform_libname p n = ''lib'' @ n @ ''.so'') \<and>
   platform_libname ''darwin'' n = ''lib'' @ n @ ''.dylib'' \<and>
   platform_libname ''win32'' n = n @ ''.dll'' \<and>
   (\<not> prefix ''linux'' p \<and> p \<noteq> ''darwin'' \<and> p \<noteq> ''win32''
      \<longrightarrow> platform_libname p n = ''lib'' @ n @ ''.so'')"
  by (simp add: platform_libname_def)

theorem platform_libname_cases_witness:
  "prefix ''linux'' ''linux2'' \<and> platform_libname ''linux2'' ''foo'' = ''libfoo.so'' \<and>
   platform_libname ''darwin'' ''foo'' = ''libfoo.dylib'' \<and>
   platform_libname ''win32'' ''foo'' = ''foo.dll'' \<and>
   \<not> prefix ''linux'' ''freebsd13'' \<and> ''freebsd13'' \<noteq> ''darwin'' \<and> ''freebsd13'' \<noteq> ''win32'' \<and>
   platform_libname ''freebsd13'' ''foo'' = ''libfoo.so''"
  using platform_libname_cases [of "''linux2''" "''foo''"]
        platform_libname_cases [of "''freebsd13''" "''foo''"]
  by simp


text \<open>
  Claim C9. A call of a bound function that passes any keyword argument fails at once with
  \<^verbatim>\<open>TypeError("Unsupported")\<close>: the native side is left as it was, and the outcome is the
  same whatever the foreign call would do, so the native function is not called. A call
  with positional arguments only is the foreign call on those arguments.
\<close>

theorem wrapper_rejects_kwargs:
  "(kwargs \<noteq> [] \<longrightarrow>
      wrapper ccall b args kwargs n = (Inl (TypeError ''Unsupported''), n) \<and>
      wrapper ccall b args kwargs n = wrapper ccall' b args kwargs n) \<and>
   wrapper ccall b args [] n = ccall (cfn b) (cfn_argtypes b) (cfn_restype b) args n"
  by (simp add: wrapper_def)

theorem wrapper_rejects_kwargs_witness:
  "[(''b'', 23)] \<noteq> ([] :: (string \<times> int) list) \<and>
   wrapper demo_ccall demo_bound [10] [(''b'', 23)] 0 = (Inl (TypeError ''Unsupported''), 0) \<and>
   wrapper demo_ccall demo_bound [10, 23] [] 0 = (Inr 33, 1)"
  using wrapper_rejects_kwargs [of "[(''b'', 23)]" demo_ccall demo_bound "[10]" 0 demo_ccall]
        wrapper_rejects_kwargs [of "[]" demo_ccall demo_bound "[10, 23]" 0 demo_ccall]
  by (simp add: demo_ccall_def)

text \<open>
  Claim C10. The parameter \<^verbatim>\<open>cargo_extra_args\<close> has no effect: two requests that differ
  only in it have the same outcome and leave the same world, and the only command a
  request ever starts is the fixed list \<^verbatim>\<open>["cargo", "build", "--release"]\<close>, at most once.
\<close>

theorem cargo_extra_args_ignored:
  "jit os src fname atypes rtype cname extra1 f w = jit os src fname atypes rtype cname extra2 f w \<and>
   (runs (snd (jit os src fname atypes rtype cname extra1 f w)) = runs w \<or>
    (\<exists>cwd. runs (snd (jit os src fname atypes rtype cname extra1 f w))
             = runs w @ [([''cargo'', ''build'', ''--release''], cwd)]))"
proof
  show "jit os src fname atypes rtype cname extra1 f w
          = jit os src fname atypes rtype cname extra2 f w"
  proof (cases "ensure_cargo_exists os")
    case (Inl e)
    then show ?thesis by (simp add: jit_def rust_jit_def)
  next
    case (Inr u)
    define c :: "'b closure" where
      "c = \<lparr>rust_src = src, fn_name = fname, argtypes = atypes, restype = rtype,
            crate_name = py_or cname (''rustjit_'' @ hash_src src), cargo_extra_args = []\<rparr>"
    have "rust_jit os src fname atypes rtype cname extra
            = Inr (c\<lparr>cargo_extra_args := py_or extra []\<rparr>)" for extra
      using Inr by (simp add: rust_jit_def c_def)
    then show ?thesis by (simp add: jit_def decorator_extra_args)
  qed
next
  obtain r w' where res: "jit os src fname atypes rtype cname extra1 f w = (r, w')"
    by (cases "jit os src fname atypes rtype cname extra1 f w")
  show "runs (snd (jit os src fname atypes rtype cname extra1 f w)) = runs w \<or>
    (\<exists>cwd. runs (snd (jit os src fname atypes rtype cname extra1 f w))
             = runs w @ [([''cargo'', ''build'', ''--release''], cwd)])"
  proof (cases "rust_jit os src fname atypes rtype cname extra1")
    case (Inl e)
    then show ?thesis by (simp add: jit_def)
  next
    case (Inr c)
    with res have "decorator os c f w = (r, w')" by (simp add: jit_def)
    from decorator_runs [OF this] res show ?thesis by (auto simp: build_cmd_def)
  qed
qed

theorem cargo_extra_args_ignored_witness:
  "demo_jit cargo_ok demo_src (Some [''--offline'']) demo_stale
     = demo_jit cargo_ok demo_src None demo_stale \<and>
   runs (snd (demo_jit cargo_ok demo_src (Some [''--offline'']) demo_stale))
     = [([''cargo'', ''build'', ''--release''], [''tmp'', ''rustjit_demo''])]"
proof -
  have "runs (snd (demo_jit cargo_ok demo_src None demo_stale))
     = [([''cargo'', ''build'', ''--release''], [''tmp'', ''rustjit_demo''])]"
    by (simp add: demo_defs program_defs)
  with cargo_extra_args_ignored [of "demo_os cargo_ok" demo_src "''add_i32''"
      "[32, 32 :: nat]" "32 :: nat" "Some ''demo''" "Some [''--offline'']" demo_f demo_stale None]
  show ?thesis by (simp add: demo_jit_def)
qed

text \<open>
  Claim C5. When \<^verbatim>\<open>cargo\<close> is not on the search path, constructing the request fails with
  the \<^verbatim>\<open>RuntimeError\<close> of \<^verbatim>\<open>_ensure_cargo_exists\<close>, so a decorated definition fails with
  it and leaves the world as it was: no directory is created, no file written, no process
  started. The message is not that of a failed compilation, of a missing artifact or of a
  missing symbol. The decorator itself never looks at the search path: the check is made
  once, when the request is constructed.
\<close>

theorem toolchain_missing_fails_first:
  "(which os ''cargo'' = None \<longrightarrow>
      rust_jit os src fname atypes rtype cname extra
        = Inl (RuntimeError
                 ''cargo (Rust toolchain) not found in PATH. Please install Rust and cargo.'') \<and>
      jit os src fname atypes rtype cname extra f w
        = (Inl (RuntimeError
                  ''cargo (Rust toolchain) not found in PATH. Please install Rust and cargo.''),
           w)) \<and>
   RuntimeError ''cargo (Rust toolchain) not found in PATH. Please install Rust and cargo.''
     \<noteq> compile_error out err \<and>
   RuntimeError ''cargo (Rust toolchain) not found in PATH. Please install Rust and cargo.''
     \<noteq> not_found_error os c \<and>
   RuntimeError ''cargo (Rust toolchain) not found in PATH. Please install Rust and cargo.''
     \<noteq> symbol_error fname' \<and>
   decorator (os\<lparr>which := wh\<rparr>) c f w = decorator os c f w"
  by (simp add: jit_def rust_jit_def ensure_cargo_exists_def compile_error_def
        not_found_error_def symbol_error_def decorator_which)

theorem toolchain_missing_fails_first_witness:
  "which demo_os_no_cargo ''cargo'' = None \<and>
   jit demo_os_no_cargo demo_src ''add_i32'' [32, 32 :: nat] (32 :: nat) (Some ''demo'') None
       demo_f demo_empty
     = (Inl (RuntimeError
               ''cargo (Rust toolchain) not found in PATH. Please install Rust and cargo.''),
        demo_empty)"
  using toolchain_missing_fails_first [THEN conjunct1, of demo_os_no_cargo demo_src "''add_i32''"
          "[32, 32 :: nat]" "32 :: nat" "Some ''demo''" None demo_f demo_empty]
  by (simp add: demo_os_no_cargo_def demo_os_def)



text \<open>
  Claim C6, as stated: when the compiler exits with a return code other than 0, the
  request fails with the compilation error and the message contains the captured
  standard output and standard error verbatim. It fails on output that is not UTF-8: the
  compiler below writes the byte \<open>0xFF\<close> to its standard error, and the message does not
  contain what was captured.
\<close>

theorem compile_error_verbatim_counterexample:
  "fst (decorator (demo_os (cargo_fails ''out'' (''bad '' @ [CHR 0xFF]))) (demo_closure demo_src)
          demo_f demo_empty)
     = Inl (RuntimeError (''Rust compilation failed.'' @ NL @ ''STDOUT:'' @ NL @ ''out'' @ NL
                            @ ''STDERR:'' @ NL @ ''bad '')) \<and>
   \<not> sublist (''bad '' @ [CHR 0xFF])
        (''Rust compilation failed.'' @ NL @ ''STDOUT:'' @ NL @ ''out'' @ NL
           @ ''STDERR:'' @ NL @ ''bad '')"
proof
  show "fst (decorator (demo_os (cargo_fails ''out'' (''bad '' @ [CHR 0xFF])))
          (demo_closure demo_src) demo_f demo_empty)
     = Inl (RuntimeError (''Rust compilation failed.'' @ NL @ ''STDOUT:'' @ NL @ ''out'' @ NL
                            @ ''STDERR:'' @ NL @ ''bad ''))"
    by (simp add: demo_defs program_defs compile_error_def decode_output_def)
  show "\<not> sublist (''bad '' @ [CHR 0xFF])
        (''Rust compilation failed.'' @ NL @ ''STDOUT:'' @ NL @ ''out'' @ NL
           @ ''STDERR:'' @ NL @ ''bad '')"
  proof
    assume "sublist (''bad '' @ [CHR 0xFF])
        (''Rust compilation failed.'' @ NL @ ''STDOUT:'' @ NL @ ''out'' @ NL
           @ ''STDERR:'' @ NL @ ''bad '')"
    then have "set (''bad '' @ [CHR 0xFF])
        \<subseteq> set (''Rust compilation failed.'' @ NL @ ''STDOUT:'' @ NL @ ''out'' @ NL
           @ ''STDERR:'' @ NL @ ''bad '')"
      by (rule set_mono_sublist)
    then show False by simp
  qed
qed

text \<open>
  Claim C6, amended. When the compiler exits with a return code other than 0, the request
  fails with the \<^verbatim>\<open>RuntimeError\<close> whose message is \<open>Rust compilation failed.\<close> followed by
  the captured standard output and standard error, each decoded as UTF-8 with the bytes
  that do not decode dropped (\<^verbatim>\<open>errors='ignore'\<close>); output that is well-formed UTF-8 is
  in the message verbatim. The compiler has run once.
\<close>

theorem compile_failure_message:
  "(prepare os c w = (Inr None, w1) \<and>
    subprocess_run os build_cmd (tempdir_of os c) (files w1) = (Exited rc out err, fs2) \<and>
    rc \<noteq> 0 \<longrightarrow>
      decorator os c f w =
        (Inl (RuntimeError (''Rust compilation failed.'' @ NL @ ''STDOUT:'' @ NL
                              @ decode_ignore out @ NL @ ''STDERR:'' @ NL @ decode_ignore err)),
         w1\<lparr>files := fs2, runs := runs w @ [(build_cmd, tempdir_of os c)]\<rparr>)) \<and>
   (utf8_valid out \<longrightarrow> decode_ignore out = out) \<and>
   (utf8_valid err \<longrightarrow> decode_ignore err = err)"
proof (intro conjI impI)
  assume "prepare os c w = (Inr None, w1) \<and>
    subprocess_run os build_cmd (tempdir_of os c) (files w1) = (Exited rc out err, fs2) \<and>
    rc \<noteq> 0"
  then have p: "prepare os c w = (Inr None, w1)"
    and b: "subprocess_run os build_cmd (tempdir_of os c) (files w1) = (Exited rc out err, fs2)"
    and rc: "rc \<noteq> 0"
    by simp_all
  from rc show "decorator os c f w =
        (Inl (RuntimeError (''Rust compilation failed.'' @ NL @ ''STDOUT:'' @ NL
                              @ decode_ignore out @ NL @ ''STDERR:'' @ NL @ decode_ignore err)),
         w1\<lparr>files := fs2, runs := runs w @ [(build_cmd, tempdir_of os c)]\<rparr>)"
    by (simp add: decorator_built [OF p b] compile_error_def decode_output_eq)
next
  assume "utf8_valid out"
  then show "decode_ignore out = out" by (rule utf8_valid_decode)
next
  assume "utf8_valid err"
  then show "decode_ignore err = err" by (rule utf8_valid_decode)
qed

theorem compile_failure_message_witness:
  "fst (prepare (demo_os (cargo_fails ''warning'' ''error: bad'')) (demo_closure demo_src)
          demo_empty) = Inr None \<and>
   fst (subprocess_run (demo_os (cargo_fails ''warning'' ''error: bad'')) build_cmd
          (tempdir_of (demo_os (cargo_fails ''warning'' ''error: bad'')) (demo_closure demo_src))
          (files (snd (prepare (demo_os (cargo_fails ''warning'' ''error: bad''))
                         (demo_closure demo_src) demo_empty))))
     = Exited 101 ''warning'' ''error: bad'' \<and>
   (101 :: int) \<noteq> 0 \<and> utf8_valid ''warning'' \<and> utf8_valid ''error: bad'' \<and>
   fst (decorator (demo_os (cargo_fails ''warning'' ''error: bad'')) (demo_closure demo_src)
          demo_f demo_empty)
     = Inl (RuntimeError (''Rust compilation failed.'' @ NL @ ''STDOUT:'' @ NL @ ''warning'' @ NL
                            @ ''STDERR:'' @ NL @ ''error: bad'')) \<and>
   runs (snd (decorator (demo_os (cargo_fails ''warning'' ''error: bad'')) (demo_closure demo_src)
          demo_f demo_empty))
     = [([''cargo'', ''build'', ''--release''], [''tmp'', ''rustjit_demo''])]"
proof -
  let ?os = "demo_os (cargo_fails ''warning'' ''error: bad'')" and ?c = "demo_closure demo_src"
  obtain r w1 where p: "prepare ?os ?c demo_empty = (r, w1)"
    by (cases "prepare ?os ?c demo_empty")
  obtain q fs2 where b: "subprocess_run ?os build_cmd (tempdir_of ?os ?c) (files w1) = (q, fs2)"
    by (cases "subprocess_run ?os build_cmd (tempdir_of ?os ?c) (files w1)")
  have r: "r = Inr None"
    using p by (simp add: demo_defs program_defs)
  have q: "q = Exited 101 ''warning'' ''error: bad''"
    using b by (auto simp add: demo_os_def cargo_fails_def demo_cargo_def split: sum.splits)
  have v: "utf8_valid ''warning''" "utf8_valid ''error: bad''"
    by simp_all
  have t: "tempdir_of ?os ?c = [''tmp'', ''rustjit_demo'']"
    by (simp add: demo_defs program_defs)
  from compile_failure_message [of ?os ?c demo_empty w1 101 "''warning''" "''error: bad''" fs2
         demo_f] p b r q v t
  show ?thesis by (simp add: build_cmd_def demo_empty_def)
qed

end
